theory Spec2Isabelle
  imports Complex_Main
begin

section \<open>Python strings\<close>

text \<open>
  A Python \<open>str\<close> is a sequence of Unicode code points, so a string is modelled as a list
  of naturals. The lexicon of the analyzer holds Devanagari keywords, which are written
  here by their code points; ASCII literals are written through \<open>py\<close>.
  A Python \<open>int\<close> is an integer and a Python \<open>float\<close> is modelled as an exact rational:
  the literals \<open>0.25\<close>, \<open>0.3\<close>, \<open>0.7\<close> of the source are the fractions 25/100, 3/10, 7/10,
  and rounding is left out.
\<close>

type_synonym pystr = "nat list"

definition py :: "string \<Rightarrow> pystr" where
  "py s = map of_char s"

text \<open>\<open>s.startswith(k)\<close> and the substring test \<open>k in s\<close>.\<close>

fun startswith :: "'a list \<Rightarrow> 'a list \<Rightarrow> bool" where
  "startswith s [] = True"
| "startswith [] (k # ks) = False"
| "startswith (c # cs) (k # ks) = (c = k \<and> startswith cs ks)"

fun py_in :: "'a list \<Rightarrow> 'a list \<Rightarrow> bool" where
  "py_in k [] = (k = [])"
| "py_in k (c # cs) = (startswith (c # cs) k \<or> py_in k cs)"

text \<open>\<open>sep.join(xs)\<close>.\<close>

fun join :: "pystr \<Rightarrow> pystr list \<Rightarrow> pystr" where
  "join sep [] = []"
| "join sep [x] = x"
| "join sep (x # y # ys) = x @ sep @ join sep (y # ys)"

text \<open>
  \<open>s.split()\<close> with no argument cuts at runs of whitespace and drops empty pieces.
  \<open>isspace\<close> lists the code points that Python takes for whitespace.
\<close>

definition isspace :: "nat \<Rightarrow> bool" where
  "isspace c \<longleftrightarrow>
     (9 \<le> c \<and> c \<le> 13) \<or> (28 \<le> c \<and> c \<le> 32) \<or> c = 133 \<or> c = 160 \<or> c = 5760 \<or>
     (8192 \<le> c \<and> c \<le> 8202) \<or> c = 8232 \<or> c = 8233 \<or> c = 8239 \<or> c = 8287 \<or> c = 12288"

fun split_from :: "pystr \<Rightarrow> pystr \<Rightarrow> pystr list" where
  "split_from cur [] = (if cur = [] then [] else [cur])"
| "split_from cur (c # cs) =
     (if isspace c then (if cur = [] then split_from [] cs else cur # split_from [] cs)
      else split_from (cur @ [c]) cs)"

definition split :: "pystr \<Rightarrow> pystr list" where
  "split s = split_from [] s"

text \<open>
  \<open>sum(1 for w in ws if w in s)\<close>: the number of entries of the list \<open>ws\<close> that occur
  in \<open>s\<close>. An entry that the list holds twice is visited twice.
\<close>

definition count_in :: "pystr list \<Rightarrow> pystr \<Rightarrow> nat" where
  "count_in ws s = sum_list (map (\<lambda>w. 1) (filter (\<lambda>w. py_in w s) ws))"

text \<open>
  The ASCII part of \<open>str.lower\<close>. The analysis below takes the lowering function as a
  parameter, since Python's full Unicode case mapping is not part of the repository;
  \<open>ascii_lower\<close> is the instance used for concrete evaluations.
\<close>

definition ascii_lower :: "pystr \<Rightarrow> pystr" where
  "ascii_lower s = map (\<lambda>c. if 65 \<le> c \<and> c \<le> 90 then c + 32 else c) s"

section \<open>The lexicon\<close>

text \<open>
  The keyword tables of \<open>CustomerRiskAnalyzer.__init__\<close> and the word lists local to the
  signal extractors, in the order of the source and with the repetitions of the source.
\<close>

definition high_risk_keywords :: "pystr list" where
  "high_risk_keywords =
  [(py ''can'' @ [39] @ py ''t pay''), py ''no money'', py ''broke'', py ''unemployed'',
   py ''lost job'', py ''bankruptcy'', py ''lawyer'', py ''dispute'', py ''wrong'',
   py ''not mine'', py ''never received'', py ''scam'', py ''harassment'', py ''sue'',
   py ''court'', py ''refuse'', (py ''won'' @ [39] @ py ''t pay''),
   (py ''can'' @ [39] @ py ''t afford''), py ''financial hardship'',
   [2346, 2376, 2360, 2375, 32, 2344, 2361, 2368, 2306],
   [2346, 2376, 2360, 2366, 32, 2344, 2361, 2368, 2306],
   [2348, 2375, 2352, 2379, 2332, 2327, 2366, 2352],
   [2344, 2380, 2325, 2352, 2368, 32, 2344, 2361, 2368, 2306], [2327, 2354, 2340],
   [2350, 2375, 2352, 2366, 32, 2344, 2361, 2368, 2306],
   [2344, 2361, 2368, 2306, 32, 2350, 2367, 2354, 2366], [2343, 2379, 2326, 2366],
   [2327, 2354, 2340, 32, 2344, 2306, 2348, 2352], [2357, 2325, 2368, 2354],
   [2309, 2342, 2366, 2354, 2340], [2325, 2375, 2360],
   [2350, 2344, 2366, 32, 2325, 2352, 2340, 2366], py ''paisa nahi'', py ''paise nahi'',
   py ''berozgar'', py ''naukri nahi'', py ''galat hai'', py ''mera nahi'', py ''nahi mila'',
   py ''dhoka'', py ''galat number'', py ''vakeel'', py ''adalat'', py ''case karunga'',
   py ''mana karta'', py ''afford nahi kar sakta'', py ''bankruptcy'', py ''paisa khatam'',
   py ''financial problem'', py ''court jaaunga'', py ''lawyer se baat'']"

definition medium_risk_keywords :: "pystr list" where
  "medium_risk_keywords =
  [py ''difficult'', py ''tight'', py ''struggling'', py ''need time'', py ''extension'',
   py ''payment plan'', py ''partial'', py ''later'', py ''next month'', py ''busy'',
   py ''forgot'', py ''remind me'', py ''will try'', py ''maybe'', py ''not sure'',
   [2350, 2369, 2358, 2381, 2325, 2367, 2354], [2346, 2352, 2375, 2358, 2366, 2344, 2368],
   [2360, 2350, 2351, 32, 2330, 2366, 2361, 2367, 2319],
   [2349, 2370, 2354, 32, 2327, 2351, 2366], [2348, 2366, 2342, 32, 2350, 2375, 2306],
   [2309, 2327, 2354, 2375, 32, 2350, 2361, 2368, 2344, 2375],
   [2357, 2381, 2351, 2360, 2381, 2340],
   [2325, 2379, 2358, 2367, 2358, 32, 2325, 2352, 2370, 2306, 2327, 2366],
   [2358, 2366, 2351, 2342], [2346, 2340, 2366, 32, 2344, 2361, 2368, 2306],
   [2341, 2379, 2337, 2364, 2366, 32, 2360, 2350, 2351], py ''mushkil'', py ''pareshani'',
   py ''samay chahiye'', py ''bhul gaya'', py ''baad mein'', py ''agle mahine'', py ''vyast'',
   py ''busy hun'', py ''koshish karunga'', py ''shayad'', py ''pata nahi'',
   py ''thoda samay'', py ''time chahiye'', py ''extension chahiye'', py ''payment plan'',
   py ''partial payment'', py ''installment mein'', py ''emi mein'']"

definition low_risk_keywords :: "pystr list" where
  "low_risk_keywords =
  [py ''yes'', py ''okay'', py ''sure'', py ''will pay'', py ''today'', py ''tomorrow'',
   py ''understand'', py ''sorry'', py ''apologize'', py ''thank you'', py ''appreciate'',
   py ''payment'', py ''pay now'', py ''confirm'', py ''agreed'', py ''right away'',
   [2361, 2366, 2305], [2336, 2368, 2325], [2360, 2350, 2333, 32, 2327, 2351, 2366],
   [2350, 2366, 2347, 2364, 32, 2325, 2352, 2379], [2343, 2344, 2381, 2351, 2357, 2366, 2342],
   [2358, 2369, 2325, 2381, 2352, 2367, 2351, 2366], [2360, 2361, 2368], [2310, 2332],
   [2325, 2354], [2309, 2349, 2368], [2340, 2369, 2352, 2306, 2340],
   [2346, 2375, 2350, 2375, 2306, 2335], [2349, 2369, 2327, 2340, 2366, 2344],
   [2342, 2375, 2340, 2366, 32, 2361, 2370, 2305], py ''haan'', py ''theek'', py ''theek hai'',
   py ''samjh gaya'', py ''maaf karo'', py ''dhanyawad'', py ''shukriya'', py ''thank you'',
   py ''sahi'', py ''aaj'', py ''kal'', py ''abhi'', py ''turant'', py ''payment kar dunga'',
   py ''paisa de dunga'', py ''bhugtan'', py ''pay kar dunga'', py ''samay pe dunga'',
   py ''confirm'', py ''agreed'', py ''bilkul'', py ''zaroor'']"

definition cooperation_indicators :: "pystr list" where
  "cooperation_indicators =
  [py ''thank you'', py ''sorry'', py ''understand'', py ''appreciate'', py ''yes'',
   py ''okay'', py ''sure'', py ''will do'', py ''agreed'', py ''right'', py ''haan'',
   py ''theek'', py ''theek hai'', py ''samjh gaya'', py ''maaf karo'', py ''shukriya'',
   py ''dhanyawad'', py ''bilkul'', py ''zaroor'', py ''kar dunga'', py ''de dunga'',
   py ''samjha'', py ''acha'', py ''sahi'', [2336, 2368, 2325], [2361, 2366, 2305],
   [2360, 2350, 2333, 32, 2327, 2351, 2366], [2350, 2366, 2347, 2364, 32, 2325, 2352, 2379],
   [2343, 2344, 2381, 2351, 2357, 2366, 2342],
   [2358, 2369, 2325, 2381, 2352, 2367, 2351, 2366],
   [2348, 2367, 2354, 2381, 2325, 2369, 2354], [2332, 2352, 2370, 2352],
   [2309, 2330, 2381, 2331, 2366], [2360, 2361, 2368]]"

definition non_cooperation_indicators :: "pystr list" where
  "non_cooperation_indicators =
  [py ''no'', (py ''can'' @ [39] @ py ''t''), (py ''won'' @ [39] @ py ''t''), py ''refuse'',
   py ''busy'', py ''later'', py ''maybe'', py ''not now'', py ''call back'',
   (py ''don'' @ [39] @ py ''t have time''), py ''not interested'', py ''nahi'', py ''nahin'',
   py ''mana'', py ''vyast'', py ''busy'', py ''baad mein'', py ''phone rakh'',
   py ''time nahi'', py ''interested nahi'', py ''pareshaan mat karo'', py ''tang mat karo'',
   [2344, 2361, 2368, 2306], [2350, 2344, 2366], [2357, 2381, 2351, 2360, 2381, 2340],
   [2348, 2366, 2342, 32, 2350, 2375, 2306], [2347, 2379, 2344, 32, 2352, 2326],
   [2360, 2350, 2351, 32, 2344, 2361, 2368, 2306],
   [2346, 2352, 2375, 2358, 2366, 2344, 32, 2350, 2340, 32, 2325, 2352, 2379],
   [2340, 2306, 2327, 32, 2350, 2340, 32, 2325, 2352, 2379], py ''call back'',
   py ''later call karo'', py ''abhi nahi'']"

definition positive_words :: "pystr list" where
  "positive_words =
  [py ''thank'', py ''sorry'', py ''appreciate'', py ''understand'', py ''yes'', py ''okay'',
   py ''good'', py ''fine'', py ''great'', py ''excellent'', py ''wonderful'', py ''happy'',
   py ''pleased'', py ''satisfied'', py ''dhanyawad'', py ''shukriya'', py ''maaf karo'',
   py ''samjh gaya'', py ''theek'', py ''acha'', py ''badhiya'', py ''khushi'',
   py ''santushti'', py ''prasanna'', py ''haan'', py ''bilkul'', py ''zaroor'', py ''accha'',
   py ''sahi'', py ''badiya'', py ''mast'', py ''sundar'', py ''samjha'', py ''theek hai'',
   [2343, 2344, 2381, 2351, 2357, 2366, 2342],
   [2358, 2369, 2325, 2381, 2352, 2367, 2351, 2366],
   [2350, 2366, 2347, 2364, 32, 2325, 2352, 2379], [2360, 2350, 2333, 32, 2327, 2351, 2366],
   [2336, 2368, 2325], [2309, 2330, 2381, 2331, 2366], [2348, 2338, 2364, 2367, 2351, 2366],
   [2326, 2369, 2358, 2368], [2360, 2306, 2340, 2369, 2359, 2381, 2335, 2367],
   [2346, 2381, 2352, 2360, 2344, 2381, 2344], [2361, 2366, 2305],
   [2348, 2367, 2354, 2381, 2325, 2369, 2354], [2332, 2352, 2370, 2352], [2360, 2361, 2368]]"

definition negative_words :: "pystr list" where
  "negative_words =
  [py ''no'', (py ''can'' @ [39] @ py ''t''), (py ''won'' @ [39] @ py ''t''), py ''angry'',
   py ''upset'', py ''wrong'', py ''bad'', py ''hate'', py ''refuse'', py ''terrible'',
   py ''awful'', py ''horrible'', py ''disgusted'', py ''furious'', py ''annoyed'',
   py ''nahi'', py ''nahin'', py ''gussa'', py ''pareshaan'', py ''galat'', py ''bura'',
   py ''nafrat'', py ''mana'', py ''tang'', py ''irritate'', py ''problem'', py ''mushkil'',
   py ''takleef'', py ''dukh'', py ''ghussa'', py ''pareshan'', py ''khafa'', py ''chid'',
   py ''badtameez'', py ''bakwas'', [2344, 2361, 2368, 2306],
   [2327, 2369, 2360, 2381, 2360, 2366], [2346, 2352, 2375, 2358, 2366, 2344],
   [2327, 2354, 2340], [2348, 2369, 2352, 2366], [2344, 2347, 2352, 2340], [2350, 2344, 2366],
   [2340, 2306, 2327], [2360, 2350, 2360, 2381, 2351, 2366],
   [2350, 2369, 2358, 2381, 2325, 2367, 2354], [2340, 2325, 2354, 2368, 2347],
   [2342, 2369, 2307, 2326], [2326, 2347, 2366], [2330, 2367, 2338, 2364],
   [2348, 2342, 2340, 2350, 2368, 2332], [2348, 2325, 2357, 2366, 2360]]"

definition evasive_phrases :: "pystr list" where
  "evasive_phrases =
  [py ''abhi busy hun'', py ''time nahi hai'', py ''baad mein call karo'',
   py ''pareshaan mat karo'', py ''tang mat karo'', py ''galat number hai'',
   py ''mujhe pata nahi'', py ''kuch nahi pata'', py ''samjh nahi aaya'']"

definition hostile_phrases :: "pystr list" where
  "hostile_phrases =
  [py ''phone rakh'', py ''bakwas mat karo'', py ''jhooth bol rahe ho'', py ''scam hai ye'',
   py ''fraud company'', py ''police complaint karunga'']"

definition distress_phrases :: "pystr list" where
  "distress_phrases =
  [py ''paisa nahi hai'', py ''afford nahi kar sakta'', py ''salary nahi aayi'',
   py ''job chali gayi'', py ''business band ho gaya'', py ''EMI bhi nahi de pa raha'']"

definition hindi_indicators :: "pystr list" where
  "hindi_indicators =
  [py ''nahi'', py ''hai'', py ''kar'', py ''se'', py ''mein'', py ''ko'', py ''ka'',
   py ''ki'', py ''ke'']"

definition english_indicators :: "pystr list" where
  "english_indicators =
  [py ''the'', py ''and'', py ''is'', py ''are'', py ''can'', py ''will'', py ''have'',
   py ''not'']"

definition report_translations :: "(pystr \<times> pystr) list" where
  "report_translations =
  [([2346, 2376, 2360, 2375, 32, 2344, 2361, 2368, 2306], py ''no money''),
   ([2346, 2376, 2360, 2366, 32, 2344, 2361, 2368, 2306], py ''no money''),
   ([2348, 2375, 2352, 2379, 2332, 2327, 2366, 2352], py ''unemployed''),
   ([2344, 2380, 2325, 2352, 2368, 32, 2344, 2361, 2368, 2306], py ''no job''),
   ([2327, 2354, 2340], py ''wrong''),
   ([2350, 2375, 2352, 2366, 32, 2344, 2361, 2368, 2306], py ''not mine''),
   ([2344, 2361, 2368, 2306, 32, 2350, 2367, 2354, 2366], py ''never received''),
   ([2343, 2379, 2326, 2366], py ''fraud/scam''), ([2357, 2325, 2368, 2354], py ''lawyer''),
   ([2309, 2342, 2366, 2354, 2340], py ''court''), ([2325, 2375, 2360], py ''case''),
   ([2350, 2369, 2358, 2381, 2325, 2367, 2354], py ''difficult''),
   ([2346, 2352, 2375, 2358, 2366, 2344, 2368], py ''problem/trouble''),
   ([2360, 2350, 2351, 32, 2330, 2366, 2361, 2367, 2319], py ''need time''),
   ([2349, 2370, 2354, 32, 2327, 2351, 2366], py ''forgot''),
   ([2348, 2366, 2342, 32, 2350, 2375, 2306], py ''later''),
   ([2357, 2381, 2351, 2360, 2381, 2340], py ''busy''), ([2361, 2366, 2305], py ''yes''),
   ([2336, 2368, 2325], py ''okay''),
   ([2360, 2350, 2333, 32, 2327, 2351, 2366], py ''understood''),
   ([2350, 2366, 2347, 2364, 32, 2325, 2352, 2379], py ''sorry''),
   ([2343, 2344, 2381, 2351, 2357, 2366, 2342], py ''thank you''),
   ([2358, 2369, 2325, 2381, 2352, 2367, 2351, 2366], py ''thank you''),
   ([2344, 2361, 2368, 2306], py ''no''), ([2327, 2369, 2360, 2381, 2360, 2366], py ''angry''),
   ([2346, 2352, 2375, 2358, 2366, 2344], py ''upset/troubled'')]"

section \<open>Data model\<close>

datatype RiskLevel = LOW | MEDIUM | HIGH | CRITICAL

record RiskAnalysis =
  risk_level :: RiskLevel
  risk_score :: rat
  sentiment_score :: rat
  cooperation_score :: rat
  key_indicators :: "pystr list"
  recommendations :: "pystr list"
  transcript_file :: pystr
  analysis_timestamp :: pystr

text \<open>
  One entry of the \<open>items\<close> list of a transcript. Every field is read with \<open>item.get\<close>,
  so every field may be absent (\<open>None\<close>). A field that is present has the type of the
  input record: strings for \<open>type\<close> and \<open>role\<close>, a list of strings for \<open>content\<close>, a
  truth value for \<open>interrupted\<close> and a number for \<open>transcript_confidence\<close>.
\<close>

record item =
  item_type :: "pystr option"
  role :: "pystr option"
  item_content :: "pystr list option"
  item_interrupted :: "bool option"
  transcript_confidence :: "rat option"

text \<open>The dictionaries that \<open>analyze_transcript\<close> builds for the two roles.\<close>

record user_message =
  content :: pystr
  interrupted :: bool
  confidence :: rat

record assistant_message =
  assistant_content :: pystr
  assistant_interrupted :: bool

section \<open>Separating the turns\<close>

definition item_text :: "(pystr \<Rightarrow> pystr) \<Rightarrow> item \<Rightarrow> pystr" where
  "item_text lower it =
     lower (join (py '' '') (case item_content it of None \<Rightarrow> [] | Some fs \<Rightarrow> fs))"

definition separate_step ::
  "(pystr \<Rightarrow> pystr) \<Rightarrow> user_message list \<times> assistant_message list \<Rightarrow> item
     \<Rightarrow> user_message list \<times> assistant_message list" where
  "separate_step lower st it =
     (case st of (user_messages, assistant_messages) \<Rightarrow>
        if item_type it = Some (py ''message'') then
          if role it = Some (py ''user'') then
            (user_messages @
               [\<lparr>content = item_text lower it,
                 interrupted = (case item_interrupted it of None \<Rightarrow> False | Some b \<Rightarrow> b),
                 confidence = (case transcript_confidence it of None \<Rightarrow> 1 | Some c \<Rightarrow> c)\<rparr>],
             assistant_messages)
          else if role it = Some (py ''assistant'') then
            (user_messages,
             assistant_messages @
               [\<lparr>assistant_content = item_text lower it,
                 assistant_interrupted =
                   (case item_interrupted it of None \<Rightarrow> False | Some b \<Rightarrow> b)\<rparr>])
          else (user_messages, assistant_messages)
        else (user_messages, assistant_messages))"

definition separate_messages ::
  "(pystr \<Rightarrow> pystr) \<Rightarrow> item list \<Rightarrow> user_message list \<times> assistant_message list" where
  "separate_messages lower items = foldl (separate_step lower) ([], []) items"

section \<open>Signal extractors\<close>

subsection \<open>Sentiment\<close>

definition sentiment_step :: "rat \<times> nat \<Rightarrow> user_message \<Rightarrow> rat \<times> nat" where
  "sentiment_step st msg =
     (case st of (total_sentiment, message_count) \<Rightarrow>
        let positive_count = count_in positive_words (content msg);
            negative_count = count_in negative_words (content msg)
        in if positive_count > 0 \<or> negative_count > 0 then
             (total_sentiment +
                of_int (int positive_count - int negative_count) /
                  of_nat (max (positive_count + negative_count) 1),
              message_count + 1)
           else (total_sentiment, message_count))"

definition analyze_sentiment :: "user_message list \<Rightarrow> rat" where
  "analyze_sentiment user_messages =
     (if user_messages = [] then 0
      else case foldl sentiment_step (0, 0) user_messages of
             (total_sentiment, message_count) \<Rightarrow> total_sentiment / of_nat (max message_count 1))"

subsection \<open>Cooperation\<close>

text \<open>The state of the two inner loops is the pair of points and matched indicators.\<close>

definition coop_hit :: "pystr \<Rightarrow> int \<times> nat \<Rightarrow> pystr \<Rightarrow> int \<times> nat" where
  "coop_hit text st indicator =
     (case st of (cooperation_points, total_indicators) \<Rightarrow>
        if py_in indicator text then (cooperation_points + 1, total_indicators + 1)
        else (cooperation_points, total_indicators))"

definition non_coop_hit :: "pystr \<Rightarrow> int \<times> nat \<Rightarrow> pystr \<Rightarrow> int \<times> nat" where
  "non_coop_hit text st indicator =
     (case st of (cooperation_points, total_indicators) \<Rightarrow>
        if py_in indicator text then (cooperation_points - 1, total_indicators + 1)
        else (cooperation_points, total_indicators))"

definition cooperation_step :: "int \<times> nat \<Rightarrow> user_message \<Rightarrow> int \<times> nat" where
  "cooperation_step st msg =
     foldl (non_coop_hit (content msg))
       (foldl (coop_hit (content msg)) st cooperation_indicators)
       non_cooperation_indicators"

definition analyze_cooperation :: "user_message list \<Rightarrow> rat" where
  "analyze_cooperation user_messages =
     (if user_messages = [] then 50
      else case foldl cooperation_step (0, 0) user_messages of
             (cooperation_points, total_indicators) \<Rightarrow>
               if total_indicators = 0 then 50
               else max 0 (min 100
                      (50 + (of_int cooperation_points / of_nat total_indicators) * 50)))"

subsection \<open>Keyword risk\<close>

definition all_content :: "user_message list \<Rightarrow> pystr" where
  "all_content user_messages = join (py '' '') (map content user_messages)"

definition analyze_keywords :: "user_message list \<Rightarrow> rat" where
  "analyze_keywords user_messages =
     (if user_messages = [] then 0
      else
        let text = all_content user_messages;
            high_risk_count = count_in high_risk_keywords text;
            medium_risk_count = count_in medium_risk_keywords text;
            low_risk_count = count_in low_risk_keywords text;
            score = int high_risk_count * 30 + int medium_risk_count * 15
                      - int low_risk_count * 10
        in of_int (max 0 (min 100 score)))"

subsection \<open>Conversation flow\<close>

definition analyze_conversation_flow ::
  "user_message list \<Rightarrow> assistant_message list \<Rightarrow> rat" where
  "analyze_conversation_flow user_messages assistant_messages =
     (let user_interruptions = length (filter interrupted user_messages);
          score1 = (if user_interruptions > 2 then 20 else 0);
          short_responses =
            length (filter (\<lambda>msg. length (split (content msg)) \<le> 2) user_messages);
          score2 =
            (if length user_messages > 0 \<and>
                (of_nat short_responses :: rat) / of_nat (length user_messages) > 7 / 10
             then score1 + 15 else score1);
          low_confidence_count =
            length (filter (\<lambda>msg. confidence msg < 7 / 10) user_messages);
          score3 =
            (if length user_messages > 0 \<and>
                (of_nat low_confidence_count :: rat) / of_nat (length user_messages) > 5 / 10
             then score2 + 10 else score2)
      in min 100 score3)"

section \<open>Aggregation and classification\<close>

definition calculate_risk_score :: "rat \<Rightarrow> rat \<Rightarrow> rat \<Rightarrow> rat \<Rightarrow> rat" where
  "calculate_risk_score sentiment cooperation keyword_risk flow_risk =
     (let sentiment_risk = max 0 ((1 - sentiment) * 50);
          cooperation_risk = 100 - cooperation;
          score = sentiment_risk * (25 / 100) + cooperation_risk * (35 / 100) +
                  keyword_risk * (30 / 100) + flow_risk * (10 / 100)
      in min 100 (max 0 score))"

definition determine_risk_level :: "rat \<Rightarrow> RiskLevel" where
  "determine_risk_level score =
     (if score \<ge> 75 then CRITICAL
      else if score \<ge> 50 then HIGH
      else if score \<ge> 25 then MEDIUM
      else LOW)"

section \<open>Evidence\<close>

definition translate_keyword_for_report :: "pystr \<Rightarrow> pystr" where
  "translate_keyword_for_report keyword =
     (case map_of report_translations keyword of None \<Rightarrow> keyword | Some t \<Rightarrow> t)"

text \<open>\<open>f"{label}'{phrase}'"\<close>: the label, then the phrase between apostrophes.\<close>

definition quoted :: "string \<Rightarrow> pystr \<Rightarrow> pystr" where
  "quoted label phrase = py label @ [39] @ phrase @ [39]"

text \<open>
  Each loop of the source visits a phrase list in order and appends one entry to the
  list built so far for every phrase found in the text.
\<close>

definition append_matches ::
  "(pystr \<Rightarrow> pystr) \<Rightarrow> pystr \<Rightarrow> pystr list \<Rightarrow> pystr list \<Rightarrow> pystr list" where
  "append_matches render text acc phrases =
     foldl (\<lambda>out phrase. if py_in phrase text then out @ [render phrase] else out) acc phrases"

definition detect_hinglish_patterns :: "pystr \<Rightarrow> pystr list" where
  "detect_hinglish_patterns text =
     (let patterns = [];
          patterns = append_matches (quoted ''Evasive Hinglish phrase: '') text patterns
                       evasive_phrases;
          patterns = append_matches (quoted ''Hostile Hinglish phrase: '') text patterns
                       hostile_phrases;
          patterns = append_matches (quoted ''Financial distress indicator: '') text patterns
                       distress_phrases
      in patterns)"

subsection \<open>Language switching\<close>

definition language_mark :: "user_message \<Rightarrow> char" where
  "language_mark msg =
     (let hindi_count = count_in hindi_indicators (content msg);
          english_count = count_in english_indicators (content msg)
      in if hindi_count > english_count then CHR ''H''
         else if english_count > hindi_count then CHR ''E''
         else CHR ''M'')"

definition language_pattern :: "user_message list \<Rightarrow> char list" where
  "language_pattern user_messages =
     foldl (\<lambda>pat msg. pat @ [language_mark msg]) [] user_messages"

text \<open>The second loop runs over \<open>range(len(language_pattern) - 1)\<close> and reads by index.\<close>

definition count_switches :: "char list \<Rightarrow> nat" where
  "count_switches pat =
     foldl (\<lambda>switches i.
              if pat ! i \<noteq> pat ! (i + 1) \<and> pat ! i \<noteq> CHR ''M'' \<and> pat ! (i + 1) \<noteq> CHR ''M''
              then switches + 1 else switches)
       0 [0 ..< length pat - 1]"

definition detect_language_switching :: "user_message list \<Rightarrow> bool" where
  "detect_language_switching user_messages =
     (if length user_messages < 3 then False
      else
        let pat = language_pattern user_messages
        in (of_nat (count_switches pat) :: rat) > of_nat (length pat) * (3 / 10))"

subsection \<open>Key indicators\<close>

definition identify_key_indicators :: "user_message list \<Rightarrow> pystr list" where
  "identify_key_indicators user_messages =
     (let indicators = [];
          text = all_content user_messages;
          indicators =
            append_matches (\<lambda>k. quoted ''High risk keyword: '' (translate_keyword_for_report k))
              text indicators high_risk_keywords;
          indicators =
            append_matches (\<lambda>k. quoted ''Medium risk keyword: '' (translate_keyword_for_report k))
              text indicators medium_risk_keywords;
          indicators = indicators @ detect_hinglish_patterns text;
          indicators =
            (case user_messages of
               [] \<Rightarrow> indicators @ [py ''No user responses - possible call avoidance'']
             | [msg] \<Rightarrow>
                 if length (split (content msg)) \<le> 2
                 then indicators @ [py ''Very brief response - possible disengagement'']
                 else indicators
             | _ \<Rightarrow> indicators);
          indicators =
            (if detect_language_switching user_messages
             then indicators @ [py ''Frequent language switching - possible avoidance tactic'']
             else indicators)
      in take 7 indicators)"

section \<open>Recommendations\<close>

definition get_hinglish_recommendations :: "(pystr \<Rightarrow> pystr) \<Rightarrow> pystr list \<Rightarrow> pystr list" where
  "get_hinglish_recommendations lower indicators =
     (let indicator_text = lower (join (py '' '') indicators);
          r1 = (if py_in (py ''evasive hinglish phrase'') indicator_text
                then [py ''Customer using evasive Hinglish - try direct Hindi approach'']
                else []);
          r2 = (if py_in (py ''hostile hinglish phrase'') indicator_text
                then r1 @ [py
                  ''Customer showing hostility in Hinglish - escalate to Hindi-speaking senior agent'']
                else r1);
          r3 = (if py_in (py ''financial distress indicator'') indicator_text
                then r2 @ [py
                  ''Financial distress detected - offer EMI/installment options in Hindi'']
                else r2);
          r4 = (if py_in (py ''language switching'') indicator_text
                then r3 @ [py
                  ''Customer switching languages - may indicate discomfort, use consistent Hindi'']
                else r3);
          r5 = (if list_ex (\<lambda>ind. py_in (py ''no money'') ind \<or> py_in (py ''unemployed'') ind \<or>
                                  py_in (py ''no job'') ind) indicators
                then r4 @ [py
                  ''Financial hardship indicated - consider compassionate collection approach'']
                else r4);
          r6 = (if list_ex (\<lambda>ind. py_in (py ''lawyer'') ind \<or> py_in (py ''court'') ind \<or>
                                  py_in (py ''case'') ind) indicators
                then r5 @ [py
                  ''Legal threats detected - document thoroughly and involve legal team'']
                else r5)
      in r6)"

definition base_recommendations :: "RiskLevel \<Rightarrow> pystr list" where
  "base_recommendations level =
     (case level of
        CRITICAL \<Rightarrow>
          [py ''Escalate to senior collection specialist immediately'',
           py ''Consider legal action or external collection agency'',
           py ''Document all interactions thoroughly'',
           py ''Review account for potential disputes or fraud'']
      | HIGH \<Rightarrow>
          [py ''Schedule follow-up call within 24-48 hours'',
           py ''Offer payment plan options'',
           py ''Consider supervisor review of account'',
           py ''Document customer concerns and objections'']
      | MEDIUM \<Rightarrow>
          [py ''Follow up within 1 week'',
           py ''Send payment reminder via email/SMS'',
           py ''Monitor account closely for changes'',
           py ''Be prepared to offer flexible payment options'']
      | LOW \<Rightarrow>
          [py ''Standard follow-up schedule'',
           py ''Customer appears cooperative'',
           py ''Continue with normal collection process'',
           py ''Consider this a positive interaction''])"

definition generate_recommendations ::
  "(pystr \<Rightarrow> pystr) \<Rightarrow> RiskLevel \<Rightarrow> pystr list \<Rightarrow> rat \<Rightarrow> pystr list" where
  "generate_recommendations lower level indicators cooperation =
     (let recs = base_recommendations level;
          recs =
            (if cooperation < 30
             then recs @ [py ''Customer showed low cooperation - consider different approach'']
             else if cooperation > 70
             then recs @ [py ''Customer was cooperative - maintain positive relationship'']
             else recs)
      in recs @ get_hinglish_recommendations lower indicators)"

section \<open>The analysis of one transcript\<close>

text \<open>
  \<open>analyze_transcript\<close> after the file has been read: \<open>items\<close> is the decoded item list,
  \<open>now\<close> the formatted clock reading, \<open>lower\<close> the implementation of \<open>str.lower\<close>.
\<close>

definition analyze_transcript ::
  "(pystr \<Rightarrow> pystr) \<Rightarrow> pystr \<Rightarrow> pystr \<Rightarrow> item list \<Rightarrow> RiskAnalysis" where
  "analyze_transcript lower file now items =
     (case separate_messages lower items of (user_messages, assistant_messages) \<Rightarrow>
        let sentiment = analyze_sentiment user_messages;
            cooperation = analyze_cooperation user_messages;
            keyword_risk = analyze_keywords user_messages;
            flow_risk = analyze_conversation_flow user_messages assistant_messages;
            score = calculate_risk_score sentiment cooperation keyword_risk flow_risk;
            level = determine_risk_level score;
            indicators = identify_key_indicators user_messages;
            recs = generate_recommendations lower level indicators cooperation
        in \<lparr>risk_level = level, risk_score = score, sentiment_score = sentiment,
            cooperation_score = cooperation, key_indicators = indicators,
            recommendations = recs, transcript_file = file, analysis_timestamp = now\<rparr>)"

section \<open>Notions used in the statements\<close>

text \<open>\<open>clip(x, lo, hi)\<close> as the specification writes it.\<close>

definition clip :: "rat \<Rightarrow> rat \<Rightarrow> rat \<Rightarrow> rat" where
  "clip x lo hi = (if x < lo then lo else if x > hi then hi else x)"

text \<open>The order of the risk levels: Low, Medium, High, Critical.\<close>

fun level_rank :: "RiskLevel \<Rightarrow> nat" where
  "level_rank LOW = 0"
| "level_rank MEDIUM = 1"
| "level_rank HIGH = 2"
| "level_rank CRITICAL = 3"

text \<open>
  The counts as the specification words them: the number of distinct keywords of a lexicon
  (a set) that occur in a text, whatever the number of times the list names them.
\<close>

definition distinct_count_in :: "pystr list \<Rightarrow> pystr \<Rightarrow> nat" where
  "distinct_count_in ws s = card {w \<in> set ws. py_in w s}"

text \<open>The keyword risk of the specification: distinct keywords of each tier.\<close>

definition keyword_risk_distinct :: "user_message list \<Rightarrow> rat" where
  "keyword_risk_distinct user_messages =
     (let text = all_content user_messages;
          h = distinct_count_in high_risk_keywords text;
          m = distinct_count_in medium_risk_keywords text;
          l = distinct_count_in low_risk_keywords text
      in clip (of_int (30 * int h + 15 * int m - 10 * int l)) 0 100)"

text \<open>
  The cooperation score of the specification: in each turn an indicator contributes at most
  once.
\<close>

definition cooperation_distinct :: "user_message list \<Rightarrow> rat" where
  "cooperation_distinct user_messages =
     (let pos = sum_list (map (\<lambda>msg. distinct_count_in cooperation_indicators (content msg))
                  user_messages);
          neg = sum_list (map (\<lambda>msg. distinct_count_in non_cooperation_indicators (content msg))
                  user_messages)
      in if pos + neg = 0 then 50
         else clip (50 + 50 * (of_int (int pos - int neg) / of_nat (pos + neg))) 0 100)"

text \<open>
  The switches of the specification: the adjacent pairs of a pattern that go from \<open>H\<close> to
  \<open>E\<close> or from \<open>E\<close> to \<open>H\<close>.
\<close>

fun he_transitions :: "char list \<Rightarrow> nat" where
  "he_transitions (x # y # ys) =
     (if (x = CHR ''H'' \<and> y = CHR ''E'') \<or> (x = CHR ''E'' \<and> y = CHR ''H'') then 1 else 0)
       + he_transitions (y # ys)"
| "he_transitions [x] = 0"
| "he_transitions [] = 0"

text \<open>The marker counts of a turn.\<close>

definition hindi_count :: "user_message \<Rightarrow> nat" where
  "hindi_count msg = length (filter (\<lambda>w. py_in w (content msg)) hindi_indicators)"

definition english_count :: "user_message \<Rightarrow> nat" where
  "english_count msg = length (filter (\<lambda>w. py_in w (content msg)) english_indicators)"

text \<open>
  The evidence of the specification, group by group: the keywords of a tier found in the
  text, rendered through the translation table; the phrases of a category found in the
  text; the structural flag; the language-switching flag.
\<close>

definition keyword_evidence :: "string \<Rightarrow> pystr list \<Rightarrow> pystr \<Rightarrow> pystr list" where
  "keyword_evidence label keywords text =
     map (\<lambda>k. quoted label (translate_keyword_for_report k)) (filter (\<lambda>k. py_in k text) keywords)"

definition phrase_evidence :: "string \<Rightarrow> pystr list \<Rightarrow> pystr \<Rightarrow> pystr list" where
  "phrase_evidence label phrases text = map (quoted label) (filter (\<lambda>p. py_in p text) phrases)"

definition structural_flags :: "user_message list \<Rightarrow> pystr list" where
  "structural_flags user_messages =
     (if length user_messages = 0 then [py ''No user responses - possible call avoidance'']
      else if length user_messages = 1 \<and> length (split (content (user_messages ! 0))) \<le> 2
      then [py ''Very brief response - possible disengagement'']
      else [])"

definition switching_flag :: "user_message list \<Rightarrow> pystr list" where
  "switching_flag user_messages =
     (if detect_language_switching user_messages
      then [py ''Frequent language switching - possible avoidance tactic''] else [])"

definition evidence_sequence :: "user_message list \<Rightarrow> pystr list" where
  "evidence_sequence user_messages =
     keyword_evidence ''High risk keyword: '' high_risk_keywords (all_content user_messages) @
     keyword_evidence ''Medium risk keyword: '' medium_risk_keywords (all_content user_messages) @
     phrase_evidence ''Evasive Hinglish phrase: '' evasive_phrases (all_content user_messages) @
     phrase_evidence ''Hostile Hinglish phrase: '' hostile_phrases (all_content user_messages) @
     phrase_evidence ''Financial distress indicator: '' distress_phrases
       (all_content user_messages) @
     structural_flags user_messages @
     switching_flag user_messages"

text \<open>
  The items that become customer turns and agent turns, and the turn made of an item.
\<close>

definition customer_item :: "item \<Rightarrow> bool" where
  "customer_item it \<longleftrightarrow> item_type it = Some (py ''message'') \<and> role it = Some (py ''user'')"

definition agent_item :: "item \<Rightarrow> bool" where
  "agent_item it \<longleftrightarrow> item_type it = Some (py ''message'') \<and> role it = Some (py ''assistant'')"

definition customer_turn :: "(pystr \<Rightarrow> pystr) \<Rightarrow> item \<Rightarrow> user_message" where
  "customer_turn lower it =
     \<lparr>content = item_text lower it,
      interrupted = (case item_interrupted it of None \<Rightarrow> False | Some b \<Rightarrow> b),
      confidence = (case transcript_confidence it of None \<Rightarrow> 1 | Some c \<Rightarrow> c)\<rparr>"

definition agent_turn :: "(pystr \<Rightarrow> pystr) \<Rightarrow> item \<Rightarrow> assistant_message" where
  "agent_turn lower it =
     \<lparr>assistant_content = item_text lower it,
      assistant_interrupted = (case item_interrupted it of None \<Rightarrow> False | Some b \<Rightarrow> b)\<rparr>"

section \<open>Properties of the string primitives and of the loops\<close>

text \<open>The recursive substring test is the substring relation of Python's \<open>in\<close>.\<close>

lemma startswith_iff: "startswith s k \<longleftrightarrow> (\<exists>q. s = k @ q)"
  by (induction s k rule: startswith.induct) auto

lemma py_in_iff: "py_in k s \<longleftrightarrow> (\<exists>p q. s = p @ k @ q)"
proof (induction s)
  case Nil
  then show ?case by auto
next
  case (Cons c cs)
  show ?case
  proof
    assume "py_in k (c # cs)"
    then consider "startswith (c # cs) k" | "py_in k cs" by auto
    then show "\<exists>p q. c # cs = p @ k @ q"
    proof cases
      case 1
      then obtain q where "c # cs = k @ q" by (auto simp: startswith_iff)
      then have "c # cs = [] @ k @ q" by simp
      then show ?thesis by blast
    next
      case 2
      then obtain p q where "cs = p @ k @ q" using Cons.IH by auto
      then have "c # cs = (c # p) @ k @ q" by simp
      then show ?thesis by blast
    qed
  next
    assume "\<exists>p q. c # cs = p @ k @ q"
    then obtain p q where pq: "c # cs = p @ k @ q" by auto
    show "py_in k (c # cs)"
    proof (cases p)
      case Nil
      with pq have "startswith (c # cs) k" by (auto simp: startswith_iff)
      then show ?thesis by simp
    next
      case (Cons a p')
      with pq have "cs = p' @ k @ q" by simp
      then have "py_in k cs" using Cons.IH by auto
      then show ?thesis by simp
    qed
  qed
qed

lemma count_in_length: "count_in ws s = length (filter (\<lambda>w. py_in w s) ws)"
  unfolding count_in_def by (induction ws) auto

lemma append_matches_eq:
  "append_matches render text acc phrases =
     acc @ map render (filter (\<lambda>p. py_in p text) phrases)"
  unfolding append_matches_def by (induction phrases arbitrary: acc) auto

section \<open>Aggregation and classification\<close>

text \<open>
  C2. For all four signal values the aggregate risk score is
  \<open>clip(0.25*sentiment_risk + 0.35*cooperation_risk + 0.30*keyword_risk + 0.10*flow_risk, 0, 100)\<close>
  with \<open>sentiment_risk = max(0, (1 - sentiment_score) * 50)\<close> and
  \<open>cooperation_risk = 100 - cooperation_score\<close>. The aggregator is a function of these four
  arguments and of nothing else.
\<close>

theorem calculate_risk_score_formula:
  "calculate_risk_score sentiment cooperation keyword_risk flow_risk =
     clip (25 / 100 * max 0 ((1 - sentiment) * 50) + 35 / 100 * (100 - cooperation) +
           30 / 100 * keyword_risk + 10 / 100 * flow_risk) 0 100"
  by (simp add: calculate_risk_score_def clip_def Let_def min_def max_def algebra_simps)

theorem calculate_risk_score_formula_witness:
  "calculate_risk_score 0 50 0 0 =
     clip (25 / 100 * max 0 ((1 - 0) * 50) + 35 / 100 * (100 - 50) + 30 / 100 * 0 + 10 / 100 * 0) 0 100
   \<and> calculate_risk_score 0 50 0 0 = 30"
  using calculate_risk_score_formula [of 0 50 0 0] by (simp add: clip_def)

text \<open>
  C3. The classification returns Critical iff the score is at least 75, High iff it is in
  [50, 75), Medium iff it is in [25, 50) and Low iff it is below 25. Each lower boundary is
  inclusive, the four cases are disjoint and cover every score, and the level is a monotone
  step function of the score.
\<close>

theorem determine_risk_level_thresholds:
  "(determine_risk_level s = CRITICAL \<longleftrightarrow> 75 \<le> s) \<and>
   (determine_risk_level s = HIGH \<longleftrightarrow> 50 \<le> s \<and> s < 75) \<and>
   (determine_risk_level s = MEDIUM \<longleftrightarrow> 25 \<le> s \<and> s < 50) \<and>
   (determine_risk_level s = LOW \<longleftrightarrow> s < 25) \<and>
   determine_risk_level 25 = MEDIUM \<and> determine_risk_level 50 = HIGH \<and>
   determine_risk_level 75 = CRITICAL \<and>
   (s \<le> t \<longrightarrow> level_rank (determine_risk_level s) \<le> level_rank (determine_risk_level t))"
  by (auto simp: determine_risk_level_def)

theorem determine_risk_level_thresholds_witness:
  "determine_risk_level (24999 / 1000) = LOW \<and> determine_risk_level 25 = MEDIUM \<and>
   determine_risk_level (49999 / 1000) = MEDIUM \<and> determine_risk_level 50 = HIGH \<and>
   determine_risk_level (74999 / 1000) = HIGH \<and> determine_risk_level 75 = CRITICAL \<and>
   level_rank (determine_risk_level (24999 / 1000)) \<le> level_rank (determine_risk_level 25)"
proof -
  have le: "(24999 / 1000 :: rat) \<le> 25" by simp
  have "level_rank (determine_risk_level (24999 / 1000)) \<le> level_rank (determine_risk_level 25)"
    using determine_risk_level_thresholds [of "24999 / 1000" 25] le by blast
  then show ?thesis by (simp add: determine_risk_level_def)
qed

section \<open>Keyword risk\<close>

lemma distinct_count_in_remdups:
  "distinct_count_in ws s = length (remdups (filter (\<lambda>w. py_in w s) ws))"
proof -
  have "{w \<in> set ws. py_in w s} = set (filter (\<lambda>w. py_in w s) ws)" by auto
  then show ?thesis unfolding distinct_count_in_def by (simp only: card_set)
qed

lemma high_in_bankruptcy:
  "filter (\<lambda>w. py_in w (py ''bankruptcy'')) high_risk_keywords = [py ''bankruptcy'', py ''bankruptcy'']"
  by (simp add: high_risk_keywords_def py_def)

lemma medium_in_bankruptcy:
  "filter (\<lambda>w. py_in w (py ''bankruptcy'')) medium_risk_keywords = []"
  by (simp add: medium_risk_keywords_def py_def)

lemma low_in_bankruptcy:
  "filter (\<lambda>w. py_in w (py ''bankruptcy'')) low_risk_keywords = []"
  by (simp add: low_risk_keywords_def py_def)

lemma all_content_single: "all_content [m] = content m"
  by (simp add: all_content_def)

text \<open>
  C4. The keyword risk score is to be \<open>clip(30*H + 15*M - 10*L, 0, 100)\<close> with H, M and L
  the numbers of distinct high-risk, medium-risk and low-risk keywords found in the
  concatenated customer text, each keyword counted once however often the lexicon lists
  it. The high-risk list of the source repeats \<open>bankruptcy\<close> in its Hinglish block, and
  \<open>analyze_keywords\<close> visits both entries: on the single customer turn \<open>bankruptcy\<close> the
  code yields 60, where one high-risk keyword is worth 30.
\<close>

theorem analyze_keywords_repeated_keyword:
  "analyze_keywords [\<lparr>content = py ''bankruptcy'', interrupted = False, confidence = 1\<rparr>] = 60 \<and>
   keyword_risk_distinct [\<lparr>content = py ''bankruptcy'', interrupted = False, confidence = 1\<rparr>] = 30"
  by (simp add: analyze_keywords_def keyword_risk_distinct_def all_content_single count_in_length
      distinct_count_in_remdups high_in_bankruptcy medium_in_bankruptcy low_in_bankruptcy clip_def)

lemma no_keyword_in_empty:
  "filter (\<lambda>k. k = []) high_risk_keywords = []"
  "filter (\<lambda>k. k = []) medium_risk_keywords = []"
  "filter (\<lambda>k. k = []) low_risk_keywords = []"
  by (simp_all add: high_risk_keywords_def medium_risk_keywords_def low_risk_keywords_def py_def)

section \<open>Cooperation\<close>

lemma foldl_coop_hit:
  "foldl (coop_hit text) (p, t) inds =
     (p + int (length (filter (\<lambda>i. py_in i text) inds)),
      t + length (filter (\<lambda>i. py_in i text) inds))"
  by (induction inds arbitrary: p t) (auto simp: coop_hit_def)

lemma foldl_non_coop_hit:
  "foldl (non_coop_hit text) (p, t) inds =
     (p - int (length (filter (\<lambda>i. py_in i text) inds)),
      t + length (filter (\<lambda>i. py_in i text) inds))"
  by (induction inds arbitrary: p t) (auto simp: non_coop_hit_def)

lemma foldl_cooperation_step:
  "foldl cooperation_step (p, t) msgs =
     (p + int (\<Sum>msg\<leftarrow>msgs. length (filter (\<lambda>i. py_in i (content msg)) cooperation_indicators))
        - int (\<Sum>msg\<leftarrow>msgs. length (filter (\<lambda>i. py_in i (content msg)) non_cooperation_indicators)),
      t + (\<Sum>msg\<leftarrow>msgs. length (filter (\<lambda>i. py_in i (content msg)) cooperation_indicators))
        + (\<Sum>msg\<leftarrow>msgs. length (filter (\<lambda>i. py_in i (content msg)) non_cooperation_indicators)))"
  by (induction msgs arbitrary: p t)
     (auto simp: cooperation_step_def foldl_coop_hit foldl_non_coop_hit)

lemma cooperation_closed_form:
  "analyze_cooperation user_messages =
     (let pos = (\<Sum>msg\<leftarrow>user_messages.
                   length (filter (\<lambda>i. py_in i (content msg)) cooperation_indicators));
          neg = (\<Sum>msg\<leftarrow>user_messages.
                   length (filter (\<lambda>i. py_in i (content msg)) non_cooperation_indicators))
      in if pos + neg = 0 then 50
         else clip (50 + 50 * (of_int (int pos - int neg) / of_nat (pos + neg))) 0 100)"
proof (cases "user_messages = []")
  case True
  then show ?thesis by (simp add: analyze_cooperation_def)
next
  case False
  then show ?thesis
    unfolding analyze_cooperation_def foldl_cooperation_step Let_def
    by (simp add: clip_def max_def min_def algebra_simps)
qed

lemma coop_in_busy_okay:
  "filter (\<lambda>w. py_in w (py ''busy okay'')) cooperation_indicators = [py ''okay'']"
  by (simp add: cooperation_indicators_def py_def)

lemma non_coop_in_busy_okay:
  "filter (\<lambda>w. py_in w (py ''busy okay'')) non_cooperation_indicators = [py ''busy'', py ''busy'']"
  by (simp add: non_cooperation_indicators_def py_def)

text \<open>
  C5. In each customer turn every matched cooperation indicator is to add 1 to the points
  and 1 to the total, and every matched non-cooperation indicator is to subtract 1 from the
  points and add 1 to the total, no indicator contributing more than once per turn; the
  score is 50 when the total is 0 and \<open>clip(50 + 50*(points/total), 0, 100)\<close> otherwise.
  The non-cooperation list of the source repeats \<open>busy\<close> in its Hinglish block, and the
  loop visits both entries: on the single customer turn \<open>busy okay\<close> the code yields
  100/3 (points -1 of total 3), where one contribution for each indicator gives 50
  (points 0 of total 2).
\<close>

theorem analyze_cooperation_repeated_indicator:
  "analyze_cooperation [\<lparr>content = py ''busy okay'', interrupted = False, confidence = 1\<rparr>] = 100 / 3 \<and>
   cooperation_distinct [\<lparr>content = py ''busy okay'', interrupted = False, confidence = 1\<rparr>] = 50"
  by (simp add: cooperation_closed_form cooperation_distinct_def
      distinct_count_in_remdups coop_in_busy_okay non_coop_in_busy_okay clip_def)

section \<open>Language switching\<close>

lemma language_pattern_map: "language_pattern msgs = map language_mark msgs"
proof -
  have "foldl (\<lambda>pat msg. pat @ [language_mark msg]) acc msgs = acc @ map language_mark msgs"
    for acc by (induction msgs arbitrary: acc) auto
  then show ?thesis by (simp add: language_pattern_def)
qed

lemma language_mark_cases:
  "language_mark msg =
     (if hindi_count msg > english_count msg then CHR ''H''
      else if english_count msg > hindi_count msg then CHR ''E'' else CHR ''M'')"
  by (simp add: language_mark_def hindi_count_def english_count_def count_in_length Let_def)

lemma language_mark_range: "language_mark msg \<in> {CHR ''H'', CHR ''E'', CHR ''M''}"
  by (simp add: language_mark_cases)

lemma foldl_count_if:
  "foldl (\<lambda>n i. if P i then n + 1 else n) a xs = a + length (filter P xs)"
  by (induction xs arbitrary: a) auto

lemma count_switches_filter:
  "count_switches pat =
     length (filter (\<lambda>i. pat ! i \<noteq> pat ! (i + 1) \<and> pat ! i \<noteq> CHR ''M'' \<and> pat ! (i + 1) \<noteq> CHR ''M'')
       [0 ..< length pat - 1])"
  unfolding count_switches_def by (simp add: foldl_count_if)

lemma count_switches_step:
  "count_switches (x # y # ys) =
     (if x \<noteq> y \<and> x \<noteq> CHR ''M'' \<and> y \<noteq> CHR ''M'' then 1 else 0) + count_switches (y # ys)"
proof -
  have upt: "[0 ..< Suc (length ys)] = 0 # map Suc [0 ..< length ys]"
    by (simp add: upt_conv_Cons map_Suc_upt del: upt_Suc)
  show ?thesis
    unfolding count_switches_filter
    by (simp add: upt filter_map comp_def del: upt_Suc)
qed

lemma count_switches_transitions:
  "set pat \<subseteq> {CHR ''H'', CHR ''E'', CHR ''M''} \<Longrightarrow> count_switches pat = he_transitions pat"
proof (induction pat rule: he_transitions.induct)
  case (1 x y ys)
  then have "count_switches (y # ys) = he_transitions (y # ys)" by simp
  moreover have "x \<in> {CHR ''H'', CHR ''E'', CHR ''M''}" "y \<in> {CHR ''H'', CHR ''E'', CHR ''M''}"
    using 1(2) by auto
  ultimately show ?case unfolding count_switches_step by auto
next
  case (2 x)
  show ?case by (simp add: count_switches_def)
next
  case 3
  show ?case by (simp add: count_switches_def)
qed

text \<open>
  C7. The language-switch detector returns false when there are fewer than 3 customer
  turns. Otherwise, with each turn classified \<open>H\<close> (more Hindi markers than English ones),
  \<open>E\<close> (more English markers) or \<open>M\<close> (a tie), it returns true iff the number of adjacent
  pairs that go from \<open>H\<close> to \<open>E\<close> or from \<open>E\<close> to \<open>H\<close> is strictly greater than 0.3 times
  the number of customer turns; a pair with an \<open>M\<close> on either side never counts. The factor
  0.3 is the rational 3/10.
\<close>

theorem detect_language_switching_spec:
  "(length user_messages < 3 \<longrightarrow> \<not> detect_language_switching user_messages) \<and>
   (3 \<le> length user_messages \<longrightarrow>
      (detect_language_switching user_messages \<longleftrightarrow>
         (of_nat (he_transitions (map language_mark user_messages)) :: rat)
           > 3 / 10 * of_nat (length user_messages))) \<and>
   (language_mark msg = CHR ''H'' \<longleftrightarrow> hindi_count msg > english_count msg) \<and>
   (language_mark msg = CHR ''E'' \<longleftrightarrow> english_count msg > hindi_count msg) \<and>
   (language_mark msg = CHR ''M'' \<longleftrightarrow> hindi_count msg = english_count msg)"
proof -
  have "set (map language_mark user_messages) \<subseteq> {CHR ''H'', CHR ''E'', CHR ''M''}"
    using language_mark_range by auto
  then have "count_switches (map language_mark user_messages) =
             he_transitions (map language_mark user_messages)"
    by (rule count_switches_transitions)
  then have "3 \<le> length user_messages \<Longrightarrow>
      (detect_language_switching user_messages \<longleftrightarrow>
         (of_nat (he_transitions (map language_mark user_messages)) :: rat)
           > 3 / 10 * of_nat (length user_messages))"
    by (simp add: detect_language_switching_def language_pattern_map Let_def mult.commute)
  moreover have "length user_messages < 3 \<Longrightarrow> \<not> detect_language_switching user_messages"
    by (simp add: detect_language_switching_def)
  ultimately show ?thesis by (auto simp: language_mark_cases)
qed

lemma mark_english: "language_mark \<lparr>content = py ''i will not pay'', interrupted = False, confidence = 1\<rparr> = CHR ''E''"
  by (simp add: language_mark_def count_in_length hindi_indicators_def english_indicators_def py_def)

lemma mark_hindi: "language_mark \<lparr>content = py ''paisa nahi hai'', interrupted = False, confidence = 1\<rparr> = CHR ''H''"
  by (simp add: language_mark_def count_in_length hindi_indicators_def english_indicators_def py_def)

theorem detect_language_switching_spec_witness:
  "detect_language_switching
     [\<lparr>content = py ''i will not pay'', interrupted = False, confidence = 1\<rparr>,
      \<lparr>content = py ''paisa nahi hai'', interrupted = False, confidence = 1\<rparr>,
      \<lparr>content = py ''i will not pay'', interrupted = False, confidence = 1\<rparr>] \<and>
   \<not> detect_language_switching
     [\<lparr>content = py ''i will not pay'', interrupted = False, confidence = 1\<rparr>,
      \<lparr>content = py ''paisa nahi hai'', interrupted = False, confidence = 1\<rparr>]"
  using detect_language_switching_spec
      [of "[\<lparr>content = py ''i will not pay'', interrupted = False, confidence = 1\<rparr>,
            \<lparr>content = py ''paisa nahi hai'', interrupted = False, confidence = 1\<rparr>,
            \<lparr>content = py ''i will not pay'', interrupted = False, confidence = 1\<rparr>]"]
    detect_language_switching_spec
      [of "[\<lparr>content = py ''i will not pay'', interrupted = False, confidence = 1\<rparr>,
            \<lparr>content = py ''paisa nahi hai'', interrupted = False, confidence = 1\<rparr>]"]
  by (simp add: mark_english mark_hindi)

section \<open>Key indicators\<close>

lemma detect_hinglish_patterns_eq:
  "detect_hinglish_patterns text =
     phrase_evidence ''Evasive Hinglish phrase: '' evasive_phrases text @
     phrase_evidence ''Hostile Hinglish phrase: '' hostile_phrases text @
     phrase_evidence ''Financial distress indicator: '' distress_phrases text"
  by (simp add: detect_hinglish_patterns_def append_matches_eq phrase_evidence_def)

lemma structural_case:
  "(case user_messages of
      [] \<Rightarrow> acc @ [a]
    | [msg] \<Rightarrow> if length (split (content msg)) \<le> 2 then acc @ [b] else acc
    | _ \<Rightarrow> acc) =
   acc @ (if length user_messages = 0 then [a]
          else if length user_messages = 1 \<and> length (split (content (user_messages ! 0))) \<le> 2
          then [b] else [])"
  by (auto split: list.splits)

lemma identify_key_indicators_eq:
  "identify_key_indicators user_messages = take 7 (evidence_sequence user_messages)"
  unfolding identify_key_indicators_def Let_def append_matches_eq detect_hinglish_patterns_eq
    structural_case evidence_sequence_def keyword_evidence_def structural_flags_def
    switching_flag_def
  by simp

text \<open>
  C8. For every customer-turn sequence the indicators list has at most 7 entries and is the
  first-7 prefix of the evidence generated in this order: high-risk keyword matches,
  medium-risk keyword matches, Hinglish pattern matches (evasive, then hostile, then
  financial distress), the structural flag (call avoidance or disengagement), the
  language-switching flag.
\<close>

theorem identify_key_indicators_order:
  "identify_key_indicators user_messages = take 7 (evidence_sequence user_messages) \<and>
   length (identify_key_indicators user_messages) \<le> 7"
  by (simp add: identify_key_indicators_eq)

lemma high_in_threats:
  "filter (\<lambda>k. py_in k (py ''lawyer court scam sue dispute broke refuse wrong busy''))
     high_risk_keywords =
   [py ''broke'', py ''lawyer'', py ''dispute'', py ''wrong'', py ''scam'', py ''sue'',
    py ''court'', py ''refuse'']"
  by (simp add: high_risk_keywords_def py_def)

lemma translate_plain:
  "translate_keyword_for_report (py ''broke'') = py ''broke''"
  "translate_keyword_for_report (py ''lawyer'') = py ''lawyer''"
  "translate_keyword_for_report (py ''dispute'') = py ''dispute''"
  "translate_keyword_for_report (py ''wrong'') = py ''wrong''"
  "translate_keyword_for_report (py ''scam'') = py ''scam''"
  "translate_keyword_for_report (py ''sue'') = py ''sue''"
  "translate_keyword_for_report (py ''court'') = py ''court''"
  "translate_keyword_for_report (py ''refuse'') = py ''refuse''"
  by (simp_all add: translate_keyword_for_report_def report_translations_def py_def)

theorem identify_key_indicators_order_witness:
  "identify_key_indicators
     [\<lparr>content = py ''lawyer court scam sue dispute broke refuse wrong busy'',
       interrupted = False, confidence = 1\<rparr>] =
   [quoted ''High risk keyword: '' (py ''broke''), quoted ''High risk keyword: '' (py ''lawyer''),
    quoted ''High risk keyword: '' (py ''dispute''), quoted ''High risk keyword: '' (py ''wrong''),
    quoted ''High risk keyword: '' (py ''scam''), quoted ''High risk keyword: '' (py ''sue''),
    quoted ''High risk keyword: '' (py ''court'')]"
  using identify_key_indicators_order
    [of "[\<lparr>content = py ''lawyer court scam sue dispute broke refuse wrong busy'',
            interrupted = False, confidence = 1\<rparr>]"]
  by (simp add: evidence_sequence_def keyword_evidence_def all_content_single high_in_threats
      translate_plain)

section \<open>The turns of a transcript\<close>

lemma user_not_assistant: "py ''user'' \<noteq> py ''assistant''"
  by (simp add: py_def)

lemma separate_step_eq:
  "separate_step lower (us, as) it =
     (us @ (if customer_item it then [customer_turn lower it] else []),
      as @ (if agent_item it then [agent_turn lower it] else []))"
  using user_not_assistant
  by (auto simp: separate_step_def customer_item_def agent_item_def customer_turn_def
      agent_turn_def)

lemma foldl_separate_step:
  "foldl (separate_step lower) (us, as) items =
     (us @ map (customer_turn lower) (filter customer_item items),
      as @ map (agent_turn lower) (filter agent_item items))"
  by (induction items arbitrary: us as) (simp_all add: separate_step_eq)

lemma separate_messages_eq:
  "separate_messages lower items =
     (map (customer_turn lower) (filter customer_item items),
      map (agent_turn lower) (filter agent_item items))"
  by (simp add: separate_messages_def foldl_separate_step)

lemma analyze_transcript_eq:
  "analyze_transcript lower file now items =
     (let user_messages = map (customer_turn lower) (filter customer_item items);
          sentiment = analyze_sentiment user_messages;
          cooperation = analyze_cooperation user_messages;
          score = calculate_risk_score sentiment cooperation (analyze_keywords user_messages)
                    (analyze_conversation_flow user_messages
                       (map (agent_turn lower) (filter agent_item items)));
          level = determine_risk_level score;
          indicators = identify_key_indicators user_messages
      in \<lparr>risk_level = level, risk_score = score, sentiment_score = sentiment,
          cooperation_score = cooperation, key_indicators = indicators,
          recommendations = generate_recommendations lower level indicators cooperation,
          transcript_file = file, analysis_timestamp = now\<rparr>)"
  by (simp add: analyze_transcript_def separate_messages_eq Let_def)

section \<open>Bounds of the scores\<close>

lemma msg_sentiment_bound:
  "\<bar>(of_int (int p - int n) :: rat) / of_nat (max (p + n) 1)\<bar> \<le> 1"
proof -
  have "\<bar>int p - int n\<bar> \<le> int (max (p + n) 1)" by auto
  then have "\<bar>(of_int (int p - int n) :: rat)\<bar> \<le> of_nat (max (p + n) 1)"
    by (metis of_int_abs of_int_le_iff of_int_of_nat_eq)
  moreover have "(0 :: rat) < of_nat (max (p + n) 1)" by simp
  ultimately show ?thesis by (simp add: abs_divide del: of_nat_max)
qed

lemma sentiment_step_inv:
  assumes "\<bar>t\<bar> \<le> of_nat c" and "sentiment_step (t, c) msg = (t', c')"
  shows "\<bar>t'\<bar> \<le> of_nat c'"
proof (cases "count_in positive_words (content msg) > 0 \<or> count_in negative_words (content msg) > 0")
  case False
  with assms show ?thesis by (simp add: sentiment_step_def Let_def)
next
  case True
  define d :: rat where
    "d = of_int (int (count_in positive_words (content msg)) - int (count_in negative_words (content msg)))
         / of_nat (max (count_in positive_words (content msg) + count_in negative_words (content msg)) 1)"
  have d: "\<bar>d\<bar> \<le> 1" unfolding d_def by (rule msg_sentiment_bound)
  from True assms(2) have "t' = t + d" "c' = c + 1"
    by (auto simp: sentiment_step_def Let_def d_def)
  with assms(1) d show ?thesis by simp
qed

lemma foldl_sentiment_inv:
  "\<bar>t\<bar> \<le> of_nat c \<Longrightarrow> foldl sentiment_step (t, c) msgs = (t', c') \<Longrightarrow> \<bar>t'\<bar> \<le> of_nat c'"
proof (induction msgs arbitrary: t c)
  case Nil
  then show ?case by simp
next
  case (Cons m msgs)
  obtain t1 c1 where s: "sentiment_step (t, c) m = (t1, c1)" by (cases "sentiment_step (t, c) m")
  with Cons.prems(1) have "\<bar>t1\<bar> \<le> of_nat c1" by (rule sentiment_step_inv)
  moreover from Cons.prems(2) s have "foldl sentiment_step (t1, c1) msgs = (t', c')" by simp
  ultimately show ?case by (rule Cons.IH)
qed

lemma analyze_sentiment_bounds: "- 1 \<le> analyze_sentiment msgs \<and> analyze_sentiment msgs \<le> 1"
proof (cases "msgs = []")
  case True
  then show ?thesis by (simp add: analyze_sentiment_def)
next
  case False
  obtain t c where f: "foldl sentiment_step (0, 0) msgs = (t, c)"
    by (cases "foldl sentiment_step (0, 0) msgs")
  have inv: "\<bar>t\<bar> \<le> of_nat c" using foldl_sentiment_inv [OF _ f] by simp
  define r where "r = t / of_nat (max c 1)"
  have "\<bar>r\<bar> \<le> 1"
  proof (cases "c = 0")
    case True
    with inv show ?thesis by (simp add: r_def)
  next
    case False
    then have "max c 1 = c" by simp
    with inv False show ?thesis by (simp add: r_def abs_divide)
  qed
  then have "- 1 \<le> r \<and> r \<le> 1" by linarith
  moreover have "analyze_sentiment msgs = r"
    using False f by (simp add: analyze_sentiment_def r_def)
  ultimately show ?thesis by simp
qed

lemma analyze_cooperation_bounds:
  "0 \<le> analyze_cooperation msgs \<and> analyze_cooperation msgs \<le> 100"
  by (simp add: analyze_cooperation_def split: prod.split)

lemma calculate_risk_score_bounds:
  "0 \<le> calculate_risk_score s c k f \<and> calculate_risk_score s c k f \<le> 100"
  by (simp add: calculate_risk_score_def Let_def)

text \<open>
  C1. For every transcript the analysis has a risk score in [0, 100], a sentiment score in
  [-1, 1] and a cooperation score in [0, 100].
\<close>

theorem analyze_transcript_bounds:
  "0 \<le> risk_score (analyze_transcript lower file now items) \<and>
   risk_score (analyze_transcript lower file now items) \<le> 100 \<and>
   - 1 \<le> sentiment_score (analyze_transcript lower file now items) \<and>
   sentiment_score (analyze_transcript lower file now items) \<le> 1 \<and>
   0 \<le> cooperation_score (analyze_transcript lower file now items) \<and>
   cooperation_score (analyze_transcript lower file now items) \<le> 100"
  using analyze_sentiment_bounds analyze_cooperation_bounds calculate_risk_score_bounds
  by (simp add: analyze_transcript_eq Let_def)


lemma in_yes_okay:
  "filter (\<lambda>w. py_in w (py ''yes okay'')) positive_words = [py ''yes'', py ''okay'']"
  "filter (\<lambda>w. py_in w (py ''yes okay'')) negative_words = []"
  "filter (\<lambda>w. py_in w (py ''yes okay'')) cooperation_indicators = [py ''yes'', py ''okay'']"
  "filter (\<lambda>w. py_in w (py ''yes okay'')) non_cooperation_indicators = []"
  "filter (\<lambda>w. py_in w (py ''yes okay'')) high_risk_keywords = []"
  "filter (\<lambda>w. py_in w (py ''yes okay'')) medium_risk_keywords = []"
  "filter (\<lambda>w. py_in w (py ''yes okay'')) low_risk_keywords = [py ''yes'', py ''okay'']"
  by (simp_all add: positive_words_def negative_words_def cooperation_indicators_def
      non_cooperation_indicators_def high_risk_keywords_def medium_risk_keywords_def
      low_risk_keywords_def py_def)

lemma split_yes_okay: "split (py ''yes okay'') = [py ''yes'', py ''okay'']"
  by (simp add: split_def py_def isspace_def)

lemma customer_turn_yes_okay:
  "map (customer_turn ascii_lower)
     (filter customer_item
        [\<lparr>item_type = Some (py ''message''), role = Some (py ''user''),
          item_content = Some [py ''Yes'', py ''Okay''], item_interrupted = None,
          transcript_confidence = None\<rparr>]) =
   [\<lparr>content = py ''yes okay'', interrupted = False, confidence = 1\<rparr>]"
  by (simp add: customer_item_def customer_turn_def item_text_def ascii_lower_def py_def)

lemma scores_yes_okay:
  "analyze_sentiment [\<lparr>content = py ''yes okay'', interrupted = False, confidence = 1\<rparr>] = 1"
  "analyze_cooperation [\<lparr>content = py ''yes okay'', interrupted = False, confidence = 1\<rparr>] = 100"
  "analyze_keywords [\<lparr>content = py ''yes okay'', interrupted = False, confidence = 1\<rparr>] = 0"
  "analyze_conversation_flow [\<lparr>content = py ''yes okay'', interrupted = False, confidence = 1\<rparr>] as
     = 15"
     apply (simp add: analyze_sentiment_def sentiment_step_def count_in_length in_yes_okay)
    apply (simp add: cooperation_closed_form in_yes_okay clip_def)
   apply (simp add: analyze_keywords_def all_content_single count_in_length in_yes_okay)
  apply (simp add: analyze_conversation_flow_def split_yes_okay)
  done

theorem analyze_transcript_bounds_witness:
  "risk_score (analyze_transcript ascii_lower (py ''call.json'') (py ''2025-01-01 10:00:00'')
     [\<lparr>item_type = Some (py ''message''), role = Some (py ''user''),
       item_content = Some [py ''Yes'', py ''Okay''], item_interrupted = None,
       transcript_confidence = None\<rparr>]) = 3 / 2 \<and>
   sentiment_score (analyze_transcript ascii_lower (py ''call.json'') (py ''2025-01-01 10:00:00'')
     [\<lparr>item_type = Some (py ''message''), role = Some (py ''user''),
       item_content = Some [py ''Yes'', py ''Okay''], item_interrupted = None,
       transcript_confidence = None\<rparr>]) = 1 \<and>
   cooperation_score (analyze_transcript ascii_lower (py ''call.json'') (py ''2025-01-01 10:00:00'')
     [\<lparr>item_type = Some (py ''message''), role = Some (py ''user''),
       item_content = Some [py ''Yes'', py ''Okay''], item_interrupted = None,
       transcript_confidence = None\<rparr>]) = 100 \<and>
   0 \<le> risk_score (analyze_transcript ascii_lower (py ''call.json'') (py ''2025-01-01 10:00:00'')
     [\<lparr>item_type = Some (py ''message''), role = Some (py ''user''),
       item_content = Some [py ''Yes'', py ''Okay''], item_interrupted = None,
       transcript_confidence = None\<rparr>])"
proof -
  let ?a = "analyze_transcript ascii_lower (py ''call.json'') (py ''2025-01-01 10:00:00'')
     [\<lparr>item_type = Some (py ''message''), role = Some (py ''user''),
       item_content = Some [py ''Yes'', py ''Okay''], item_interrupted = None,
       transcript_confidence = None\<rparr>]"
  have "0 \<le> risk_score ?a"
    using analyze_transcript_bounds
      [of ascii_lower "py ''call.json''" "py ''2025-01-01 10:00:00''"
        "[\<lparr>item_type = Some (py ''message''), role = Some (py ''user''),
           item_content = Some [py ''Yes'', py ''Okay''], item_interrupted = None,
           transcript_confidence = None\<rparr>]"]
    by blast
  moreover have "risk_score ?a = 3 / 2 \<and> sentiment_score ?a = 1 \<and> cooperation_score ?a = 100"
    unfolding analyze_transcript_eq customer_turn_yes_okay Let_def
    by (simp add: scores_yes_okay calculate_risk_score_def)
  ultimately show ?thesis by blast
qed

section \<open>Transcripts without customer turns\<close>

lemma no_customer_turns:
  "\<forall>it \<in> set items. \<not> customer_item it \<Longrightarrow>
     map (customer_turn lower) (filter customer_item items) = []"
  by (simp add: filter_empty_conv)

lemma no_phrase_in_empty:
  "filter (\<lambda>k. k = []) evasive_phrases = []"
  "filter (\<lambda>k. k = []) hostile_phrases = []"
  "filter (\<lambda>k. k = []) distress_phrases = []"
  by (simp_all add: evasive_phrases_def hostile_phrases_def distress_phrases_def py_def)

lemma identify_key_indicators_empty:
  "identify_key_indicators [] = [py ''No user responses - possible call avoidance'']"
  by (simp add: identify_key_indicators_eq evidence_sequence_def keyword_evidence_def
      phrase_evidence_def structural_flags_def switching_flag_def detect_language_switching_def
      all_content_def no_keyword_in_empty no_phrase_in_empty)

lemma signals_empty:
  "analyze_sentiment [] = 0" "analyze_cooperation [] = 50" "analyze_keywords [] = 0"
  "analyze_conversation_flow [] as = 0"
  by (simp_all add: analyze_sentiment_def analyze_cooperation_def analyze_keywords_def
      analyze_conversation_flow_def)

text \<open>
  C6. For every transcript with no customer turn (no message item with role \<open>user\<close>) the
  analysis yields a result with cooperation score 50, keyword risk 0, flow risk 0,
  sentiment score 0, and an indicators list that holds the call-avoidance flag.
\<close>

theorem empty_transcript_signals:
  assumes "\<forall>it \<in> set items. \<not> customer_item it"
  shows "cooperation_score (analyze_transcript lower file now items) = 50 \<and>
         analyze_keywords (fst (separate_messages lower items)) = 0 \<and>
         analyze_conversation_flow (fst (separate_messages lower items))
           (snd (separate_messages lower items)) = 0 \<and>
         sentiment_score (analyze_transcript lower file now items) = 0 \<and>
         py ''No user responses - possible call avoidance''
           \<in> set (key_indicators (analyze_transcript lower file now items))"
  using no_customer_turns [OF assms, of lower]
  by (simp add: analyze_transcript_eq separate_messages_eq Let_def signals_empty
      identify_key_indicators_empty)

lemma agent_only_items:
  "\<not> customer_item \<lparr>item_type = Some (py ''message''), role = Some (py ''assistant''),
      item_content = Some [py ''Hello, this is a reminder''], item_interrupted = Some True,
      transcript_confidence = None\<rparr>"
  "\<not> customer_item \<lparr>item_type = Some (py ''function_call''), role = Some (py ''user''),
      item_content = None, item_interrupted = None, transcript_confidence = None\<rparr>"
  by (simp_all add: customer_item_def py_def)

theorem empty_transcript_signals_witness:
  "cooperation_score (analyze_transcript ascii_lower (py ''call.json'') (py ''2025-01-01 10:00:00'')
     [\<lparr>item_type = Some (py ''message''), role = Some (py ''assistant''),
       item_content = Some [py ''Hello, this is a reminder''], item_interrupted = Some True,
       transcript_confidence = None\<rparr>,
      \<lparr>item_type = Some (py ''function_call''), role = Some (py ''user''),
       item_content = None, item_interrupted = None, transcript_confidence = None\<rparr>]) = 50 \<and>
   sentiment_score (analyze_transcript ascii_lower (py ''call.json'') (py ''2025-01-01 10:00:00'')
     [\<lparr>item_type = Some (py ''message''), role = Some (py ''assistant''),
       item_content = Some [py ''Hello, this is a reminder''], item_interrupted = Some True,
       transcript_confidence = None\<rparr>,
      \<lparr>item_type = Some (py ''function_call''), role = Some (py ''user''),
       item_content = None, item_interrupted = None, transcript_confidence = None\<rparr>]) = 0 \<and>
   py ''No user responses - possible call avoidance''
     \<in> set (key_indicators (analyze_transcript ascii_lower (py ''call.json'')
         (py ''2025-01-01 10:00:00'')
     [\<lparr>item_type = Some (py ''message''), role = Some (py ''assistant''),
       item_content = Some [py ''Hello, this is a reminder''], item_interrupted = Some True,
       transcript_confidence = None\<rparr>,
      \<lparr>item_type = Some (py ''function_call''), role = Some (py ''user''),
       item_content = None, item_interrupted = None, transcript_confidence = None\<rparr>]))"
proof -
  let ?items = "[\<lparr>item_type = Some (py ''message''), role = Some (py ''assistant''),
       item_content = Some [py ''Hello, this is a reminder''], item_interrupted = Some True,
       transcript_confidence = None\<rparr>,
      \<lparr>item_type = Some (py ''function_call''), role = Some (py ''user''),
       item_content = None, item_interrupted = None, transcript_confidence = None\<rparr>]"
  have h: "\<forall>it \<in> set ?items. \<not> customer_item it"
    using agent_only_items by simp
  show ?thesis
    using empty_transcript_signals
      [OF h, of ascii_lower "py ''call.json''" "py ''2025-01-01 10:00:00''"]
    by blast
qed

text \<open>
  C10. For every transcript with no customer turn the risk score is exactly 30 (0.25 * 50
  of the neutral sentiment and 0.35 * 50 of the neutral cooperation) and the level is
  Medium, so that such a call is never classified Low.
\<close>

theorem empty_transcript_score:
  assumes "\<forall>it \<in> set items. \<not> customer_item it"
  shows "risk_score (analyze_transcript lower file now items) = 30 \<and>
         risk_level (analyze_transcript lower file now items) = MEDIUM \<and>
         risk_level (analyze_transcript lower file now items) \<noteq> LOW"
  using no_customer_turns [OF assms, of lower]
  by (simp add: analyze_transcript_eq Let_def signals_empty calculate_risk_score_def
      determine_risk_level_def)

theorem empty_transcript_score_witness:
  "risk_score (analyze_transcript ascii_lower (py ''call.json'') (py ''2025-01-01 10:00:00'') [])
     = 30 \<and>
   risk_level (analyze_transcript ascii_lower (py ''call.json'') (py ''2025-01-01 10:00:00'')
     [\<lparr>item_type = Some (py ''message''), role = Some (py ''assistant''),
       item_content = Some [py ''Hello, this is a reminder''], item_interrupted = Some True,
       transcript_confidence = None\<rparr>,
      \<lparr>item_type = Some (py ''function_call''), role = Some (py ''user''),
       item_content = None, item_interrupted = None, transcript_confidence = None\<rparr>]) = MEDIUM"
proof -
  let ?items = "[\<lparr>item_type = Some (py ''message''), role = Some (py ''assistant''),
       item_content = Some [py ''Hello, this is a reminder''], item_interrupted = Some True,
       transcript_confidence = None\<rparr>,
      \<lparr>item_type = Some (py ''function_call''), role = Some (py ''user''),
       item_content = None, item_interrupted = None, transcript_confidence = None\<rparr>]"
  have h: "\<forall>it \<in> set ?items. \<not> customer_item it"
    using agent_only_items by simp
  have e: "\<forall>it \<in> set ([] :: item list). \<not> customer_item it" by simp
  show ?thesis
    using empty_transcript_score
      [OF h, of ascii_lower "py ''call.json''" "py ''2025-01-01 10:00:00''"]
      empty_transcript_score
      [OF e, of ascii_lower "py ''call.json''" "py ''2025-01-01 10:00:00''"]
    by blast
qed

section \<open>Agent turns\<close>

lemma customer_items_without_agents:
  "filter customer_item (filter (\<lambda>it. role it \<noteq> Some (py ''assistant'')) items) =
   filter customer_item items"
proof -
  have "customer_item it \<Longrightarrow> role it \<noteq> Some (py ''assistant'')" for it
    using user_not_assistant by (auto simp: customer_item_def)
  then show ?thesis by (auto simp: filter_filter intro: filter_cong)
qed

lemma flow_ignores_agent: 
  "analyze_conversation_flow user_messages as = analyze_conversation_flow user_messages bs"
  by (simp add: analyze_conversation_flow_def)

text \<open>
  C9. Agent turns do not interfere: for two transcripts whose items differ only in items
  of role \<open>assistant\<close> (the other items are the same sequence), the analyses agree in the
  level, the three scores, the indicators and the recommendations, whatever the file names
  and the clock readings are. The interruption check of the flow heuristic reads customer
  turns only.
\<close>

theorem agent_turns_do_not_interfere:
  assumes "filter (\<lambda>it. role it \<noteq> Some (py ''assistant'')) items1 =
           filter (\<lambda>it. role it \<noteq> Some (py ''assistant'')) items2"
  shows "risk_level (analyze_transcript lower file1 now1 items1) =
           risk_level (analyze_transcript lower file2 now2 items2) \<and>
         risk_score (analyze_transcript lower file1 now1 items1) =
           risk_score (analyze_transcript lower file2 now2 items2) \<and>
         sentiment_score (analyze_transcript lower file1 now1 items1) =
           sentiment_score (analyze_transcript lower file2 now2 items2) \<and>
         cooperation_score (analyze_transcript lower file1 now1 items1) =
           cooperation_score (analyze_transcript lower file2 now2 items2) \<and>
         key_indicators (analyze_transcript lower file1 now1 items1) =
           key_indicators (analyze_transcript lower file2 now2 items2) \<and>
         recommendations (analyze_transcript lower file1 now1 items1) =
           recommendations (analyze_transcript lower file2 now2 items2) \<and>
         transcript_file (analyze_transcript lower file1 now1 items1) = file1"
proof -
  have "filter customer_item items1 = filter customer_item items2"
    using assms customer_items_without_agents [of items1] customer_items_without_agents [of items2]
    by simp
  moreover have
    "analyze_conversation_flow (map (customer_turn lower) (filter customer_item items2))
       (map (agent_turn lower) (filter agent_item items1)) =
     analyze_conversation_flow (map (customer_turn lower) (filter customer_item items2))
       (map (agent_turn lower) (filter agent_item items2))"
    by (rule flow_ignores_agent)
  ultimately show ?thesis by (simp add: analyze_transcript_eq Let_def)
qed

lemma same_customer_items:
  "filter (\<lambda>it. role it \<noteq> Some (py ''assistant''))
     [\<lparr>item_type = Some (py ''message''), role = Some (py ''assistant''),
       item_content = Some [py ''Hello, this is a reminder''], item_interrupted = Some True,
       transcript_confidence = None\<rparr>,
      \<lparr>item_type = Some (py ''message''), role = Some (py ''user''),
       item_content = Some [py ''Yes'', py ''Okay''], item_interrupted = None,
       transcript_confidence = None\<rparr>] =
   filter (\<lambda>it. role it \<noteq> Some (py ''assistant''))
     [\<lparr>item_type = Some (py ''message''), role = Some (py ''user''),
       item_content = Some [py ''Yes'', py ''Okay''], item_interrupted = None,
       transcript_confidence = None\<rparr>,
      \<lparr>item_type = Some (py ''message''), role = Some (py ''assistant''),
       item_content = Some [py ''You must pay now, no excuses''], item_interrupted = None,
       transcript_confidence = None\<rparr>]"
  using user_not_assistant by simp

theorem agent_turns_do_not_interfere_witness:
  "risk_score (analyze_transcript ascii_lower (py ''a.json'') (py ''2025-01-01 10:00:00'')
     [\<lparr>item_type = Some (py ''message''), role = Some (py ''assistant''),
       item_content = Some [py ''Hello, this is a reminder''], item_interrupted = Some True,
       transcript_confidence = None\<rparr>,
      \<lparr>item_type = Some (py ''message''), role = Some (py ''user''),
       item_content = Some [py ''Yes'', py ''Okay''], item_interrupted = None,
       transcript_confidence = None\<rparr>]) =
   risk_score (analyze_transcript ascii_lower (py ''b.json'') (py ''2025-01-02 11:00:00'')
     [\<lparr>item_type = Some (py ''message''), role = Some (py ''user''),
       item_content = Some [py ''Yes'', py ''Okay''], item_interrupted = None,
       transcript_confidence = None\<rparr>,
      \<lparr>item_type = Some (py ''message''), role = Some (py ''assistant''),
       item_content = Some [py ''You must pay now, no excuses''], item_interrupted = None,
       transcript_confidence = None\<rparr>]) \<and>
   recommendations (analyze_transcript ascii_lower (py ''a.json'') (py ''2025-01-01 10:00:00'')
     [\<lparr>item_type = Some (py ''message''), role = Some (py ''assistant''),
       item_content = Some [py ''Hello, this is a reminder''], item_interrupted = Some True,
       transcript_confidence = None\<rparr>,
      \<lparr>item_type = Some (py ''message''), role = Some (py ''user''),
       item_content = Some [py ''Yes'', py ''Okay''], item_interrupted = None,
       transcript_confidence = None\<rparr>]) =
   recommendations (analyze_transcript ascii_lower (py ''b.json'') (py ''2025-01-02 11:00:00'')
     [\<lparr>item_type = Some (py ''message''), role = Some (py ''user''),
       item_content = Some [py ''Yes'', py ''Okay''], item_interrupted = None,
       transcript_confidence = None\<rparr>,
      \<lparr>item_type = Some (py ''message''), role = Some (py ''assistant''),
       item_content = Some [py ''You must pay now, no excuses''], item_interrupted = None,
       transcript_confidence = None\<rparr>])"
  using agent_turns_do_not_interfere
    [OF same_customer_items, of ascii_lower "py ''a.json''" "py ''2025-01-01 10:00:00''"
      "py ''b.json''" "py ''2025-01-02 11:00:00''"]
  by blast

end
